theory Spec2Isabelle
  imports Main "HOL-Library.Word"
begin

section \<open>JavaScript values\<close>

text \<open>
  The wrappers of \<^verbatim>\<open>mod.ts\<close> inspect whatever value the wrapped operation throws
  (\<^verbatim>\<open>err: unknown\<close>) with \<^verbatim>\<open>typeof\<close>, \<^verbatim>\<open>in\<close>, \<^verbatim>\<open>Error.isError\<close> and \<^verbatim>\<open>String\<close>, and
  the summarizer converts the name of a materialized view in a template literal.
  Run-time values are therefore modelled as data: the primitives, an ordinary object
  with its own properties, an object without a prototype (\<^verbatim>\<open>Object.create(null)\<close>),
  and an \<^verbatim>\<open>Error\<close> instance with its name, its message and its further own properties
  (such as the \<^verbatim>\<open>code\<close> of a database error). Properties are data properties and hold
  values of this type, so no property of a modelled object is a function; the methods
  an object has are those it inherits from \<^verbatim>\<open>Object.prototype\<close> or \<^verbatim>\<open>Error.prototype\<close>.
  Numbers are the integers from \<open>- 2 ^ 53\<close> to \<open>2 ^ 53 - 1\<close>, a 54-bit word read as a
  signed value: JavaScript holds each of them exactly and writes it with all its
  digits. The length of an array is below \<open>2 ^ 32\<close> and so is among them.
\<close>

datatype js_value =
    JUndefined
  | JNull
  | JBool bool
  | JNum "54 word"
  | JStr string
  | JObject "(string \<times> js_value) list"
  | JNullPrototypeObject "(string \<times> js_value) list"
  | JError string string "(string \<times> js_value) list"

fun typeof :: "js_value \<Rightarrow> string" where
  "typeof JUndefined = ''undefined''"
| "typeof JNull = ''object''"
| "typeof (JBool b) = ''boolean''"
| "typeof (JNum n) = ''number''"
| "typeof (JStr s) = ''string''"
| "typeof (JObject ps) = ''object''"
| "typeof (JNullPrototypeObject ps) = ''object''"
| "typeof (JError n m ps) = ''object''"

text \<open>
  The data properties an object answers for: its own, and for an error \<^verbatim>\<open>name\<close> and
  \<^verbatim>\<open>message\<close>. The wrappers look up the one key \<^verbatim>\<open>code\<close>, which no prototype defines.
\<close>

fun properties :: "js_value \<Rightarrow> (string \<times> js_value) list" where
  "properties (JObject ps) = ps"
| "properties (JNullPrototypeObject ps) = ps"
| "properties (JError n m ps) = (''name'', JStr n) # (''message'', JStr m) # ps"
| "properties v = []"

definition has_property :: "js_value \<Rightarrow> string \<Rightarrow> bool" where
  \<comment> \<open>\<^verbatim>\<open>k in v\<close>, for an object \<open>v\<close>\<close>
  "has_property v k = (map_of (properties v) k \<noteq> None)"

definition get_property :: "js_value \<Rightarrow> string \<Rightarrow> js_value" where
  \<comment> \<open>\<^verbatim>\<open>v.k\<close>, for an object \<open>v\<close>: a missing property reads as \<^verbatim>\<open>undefined\<close>\<close>
  "get_property v k = (case map_of (properties v) k of None \<Rightarrow> JUndefined | Some x \<Rightarrow> x)"

fun isError :: "js_value \<Rightarrow> bool" where
  \<comment> \<open>\<^verbatim>\<open>Error.isError\<close>\<close>
  "isError (JError n m ps) = True"
| "isError v = False"

function digits :: "nat \<Rightarrow> string" where
  "digits n = (if n < 10 then [''0123456789'' ! n]
               else digits (n div 10) @ [''0123456789'' ! (n mod 10)])"
  by pat_completeness auto
termination
  by (relation "measure id") auto

declare digits.simps [simp del]

definition TypeError_convert :: js_value where
  \<comment> \<open>what converting an object to a primitive throws when no method yields one\<close>
  "TypeError_convert = JError ''TypeError'' ''Cannot convert object to primitive value'' []"

text \<open>
  \<^verbatim>\<open>String(v)\<close>, which is also the conversion of a template literal for the values
  modelled: the text (\<open>Inr\<close>), or what the conversion throws (\<open>Inl\<close>). An object is
  converted by its \<^verbatim>\<open>toString\<close> method and, where that is not callable, by its
  \<^verbatim>\<open>valueOf\<close> method. An own property \<^verbatim>\<open>toString\<close> is data here, so it hides the
  inherited method and is not callable; \<^verbatim>\<open>valueOf\<close> is then an own data property or the
  inherited method, which returns the object itself; either way no primitive is found
  and a \<^verbatim>\<open>TypeError\<close> is thrown. An object without a prototype inherits no method at all.
\<close>

fun String_js :: "js_value \<Rightarrow> js_value + string" where
  "String_js JUndefined = Inr ''undefined''"
| "String_js JNull = Inr ''null''"
| "String_js (JBool b) = Inr (if b then ''true'' else ''false'')"
| "String_js (JNum n) =
     Inr (if sint n < 0 then ''-'' @ digits (nat (- sint n)) else digits (nat (sint n)))"
| "String_js (JStr s) = Inr s"
| "String_js (JObject ps) =
     (if map_of ps ''toString'' \<noteq> None then Inl TypeError_convert
      else Inr ''[object Object]'')"
| "String_js (JNullPrototypeObject ps) = Inl TypeError_convert"
| "String_js (JError n m ps) =
     (if map_of ps ''toString'' \<noteq> None then Inl TypeError_convert
      else Inr (if n = [] then m else if m = [] then n else n @ '': '' @ m))"

section \<open>Operation nodes of a compiled query\<close>

text \<open>
  The operation tree, as far as \<^verbatim>\<open>summarizeQuery\<close> reads it. The root is a tagged union
  on \<^verbatim>\<open>kind\<close>; an optional field is an \<open>option\<close>. The query builder declares the
  \<^verbatim>\<open>from\<close> of a delete node as always present; it is an \<open>option\<close> here so that a node
  without it can be written down and what the code does with it can be stated. The
  \<^verbatim>\<open>name\<close> of a refresh-materialized-view node is a schemable identifier node, as the
  query builder declares it.
\<close>

datatype identifier_node = IdentifierNode string

datatype schemable_identifier_node =
  SchemableIdentifierNode "identifier_node option" identifier_node

datatype table_node = TableNode schemable_identifier_node

datatype operation_node =
    Table table_node
  | AliasNode operation_node identifier_node
  | JoinNode string operation_node
  | OtherNode string

datatype from_node = FromNode "operation_node list"

datatype root_operation_node =
    SelectQueryNode "from_node option" "operation_node list option"
  | InsertQueryNode "table_node option"
  | UpdateQueryNode "operation_node option" "operation_node list option"
  | DeleteQueryNode "from_node option" "operation_node list option"
  | CreateTableNode
  | AlterTableNode
  | DropTableNode
  | CreateIndexNode
  | DropIndexNode
  | CreateSchemaNode
  | DropSchemaNode
  | CreateTypeNode
  | DropTypeNode
  | CreateViewNode
  | DropViewNode
  | MergeQueryNode
  | RefreshMaterializedViewNode "schemable_identifier_node option" "bool option"
  | RawNode

record compiled_query =
  sql :: string
  query :: root_operation_node
  parameters :: "js_value list"

text \<open>
  A node is an object at run time. The name of a materialized view is the object
  \<^verbatim>\<open>SchemableIdentifierNode.create(name)\<close> that \<^verbatim>\<open>RefreshMaterializedViewNode.create(name)\<close>
  keeps, not the string.
\<close>

fun identifier_object :: "identifier_node \<Rightarrow> js_value" where
  "identifier_object (IdentifierNode n) =
     JObject [(''kind'', JStr ''IdentifierNode''), (''name'', JStr n)]"

fun schemable_identifier_object :: "schemable_identifier_node \<Rightarrow> js_value" where
  "schemable_identifier_object (SchemableIdentifierNode None i) =
     JObject [(''kind'', JStr ''SchemableIdentifierNode''),
              (''identifier'', identifier_object i)]"
| "schemable_identifier_object (SchemableIdentifierNode (Some s) i) =
     JObject [(''kind'', JStr ''SchemableIdentifierNode''),
              (''schema'', identifier_object s),
              (''identifier'', identifier_object i)]"

section \<open>The query summarizer\<close>

fun getTableName :: "table_node \<Rightarrow> string" where
  "getTableName (TableNode (SchemableIdentifierNode (Some (IdentifierNode s)) (IdentifierNode t))) =
     s @ ''.'' @ t"
| "getTableName (TableNode (SchemableIdentifierNode None (IdentifierNode t))) = t"

fun table_name_or_empty :: "operation_node \<Rightarrow> string" where
  \<comment> \<open>\<^verbatim>\<open>(f) => (TableNode.is(f) ? getTableName(f) : "")\<close>\<close>
  "table_name_or_empty (Table t) = getTableName t"
| "table_name_or_empty f = ''''"

definition getTableNames :: "operation_node list \<Rightarrow> string list" where
  \<comment> \<open>\<^verbatim>\<open>.filter(Boolean)\<close> keeps the strings that are not empty\<close>
  "getTableNames froms = filter (\<lambda>s. s \<noteq> []) (map table_name_or_empty froms)"

fun join :: "string \<Rightarrow> string list \<Rightarrow> string" where
  \<comment> \<open>\<^verbatim>\<open>Array.prototype.join\<close>\<close>
  "join sep [] = ''''"
| "join sep [x] = x"
| "join sep (x # y # ys) = x @ sep @ join sep (y # ys)"

definition TypeError_undefined :: "string \<Rightarrow> js_value" where
  \<comment> \<open>what reading property \<open>p\<close> of \<^verbatim>\<open>undefined\<close> throws\<close>
  "TypeError_undefined p =
     JError ''TypeError''
       (''Cannot read properties of undefined (reading '' @ [CHR 0x27] @ p @ [CHR 0x27] @ '')'') []"

definition join_suffix :: "operation_node list option \<Rightarrow> string" where
  \<comment> \<open>\<^verbatim>\<open>if (query.joins && query.joins.length > 0) summary += ` JOIN ${...}`\<close>\<close>
  "join_suffix joins =
     (case joins of
        None \<Rightarrow> ''''
      | Some js \<Rightarrow> if length js > 0 then '' JOIN '' @ join '', '' (getTableNames js) else '''')"

fun summarizeRoot :: "root_operation_node \<Rightarrow> js_value + string" where
  "summarizeRoot (SelectQueryNode from joins) =
     Inr ((case from of
             Some (FromNode froms) \<Rightarrow>
               if length froms > 0 then ''SELECT FROM '' @ join '', '' (getTableNames froms)
               else ''SELECT''
           | None \<Rightarrow> ''SELECT'')
          @ join_suffix joins)"
| "summarizeRoot (InsertQueryNode into) =
     Inr (case into of
            Some t \<Rightarrow> ''INSERT INTO '' @ getTableName t
          | None \<Rightarrow> ''INSERT'')"
| "summarizeRoot (UpdateQueryNode table joins) =
     Inr ((case table of
             Some (Table t) \<Rightarrow> ''UPDATE '' @ getTableName t
           | _ \<Rightarrow> ''UPDATE'')
          @ join_suffix joins)"
| "summarizeRoot (DeleteQueryNode from joins) =
     (case from of
        None \<Rightarrow> Inl (TypeError_undefined ''froms'')
      | Some (FromNode froms) \<Rightarrow>
          Inr (''DELETE FROM '' @ join '', '' (getTableNames froms) @ join_suffix joins))"
| "summarizeRoot CreateTableNode = Inr ''DDL Operation''"
| "summarizeRoot AlterTableNode = Inr ''DDL Operation''"
| "summarizeRoot DropTableNode = Inr ''DDL Operation''"
| "summarizeRoot CreateIndexNode = Inr ''DDL Operation''"
| "summarizeRoot DropIndexNode = Inr ''DDL Operation''"
| "summarizeRoot CreateSchemaNode = Inr ''DDL Operation''"
| "summarizeRoot DropSchemaNode = Inr ''DDL Operation''"
| "summarizeRoot CreateTypeNode = Inr ''DDL Operation''"
| "summarizeRoot DropTypeNode = Inr ''DDL Operation''"
| "summarizeRoot CreateViewNode = Inr ''DDL Operation''"
| "summarizeRoot DropViewNode = Inr ''DDL Operation''"
| "summarizeRoot MergeQueryNode = Inr ''MERGE''"
| "summarizeRoot (RefreshMaterializedViewNode name concurrently) =
     (case (case name of
              None \<Rightarrow> Inr ''REFRESH MATERIALIZED VIEW''
            | Some node \<Rightarrow>
                (case String_js (schemable_identifier_object node) of
                   Inl thrown \<Rightarrow> Inl thrown
                 | Inr text \<Rightarrow> Inr (''REFRESH MATERIALIZED VIEW'' @ '' '' @ text))) of
        Inl thrown \<Rightarrow> Inl thrown
      | Inr summary \<Rightarrow>
          Inr (summary @ (if concurrently = Some True then '' CONCURRENTLY'' else '''')))"
| "summarizeRoot RawNode = Inr ''RAW SQL''"

definition summarizeQuery :: "compiled_query \<Rightarrow> js_value + string" where
  \<comment> \<open>the parameter pattern \<^verbatim>\<open>{ query }\<close> takes the root node out of the compiled query\<close>
  "summarizeQuery cq = summarizeRoot (query cq)"

section \<open>The tracing interface\<close>

text \<open>
  The tracer and its spans belong to the tracing provider. They are modelled as a
  recorder: the tracer's state is the list of calls made so far, each with the span
  it was made on, and the number of the next span. A span handle is its number.
  \<^verbatim>\<open>startActiveSpan(name, options, fn)\<close> records the start of a new span and runs
  \<open>fn\<close> with its handle; the four span methods record their call.
\<close>

datatype span_kind = INTERNAL | SERVER | CLIENT | PRODUCER | CONSUMER

datatype span_status_code = UNSET | OK | ERROR

record span_options =
  kind :: span_kind
  attributes :: "(string \<times> js_value) list"

datatype span_call =
    Start string span_options
  | SetAttribute string js_value
  | RecordException js_value
  | SetStatus span_status_code string
  | End

record tracer =
  next_span :: nat
  calls :: "(nat \<times> span_call) list"

definition startActiveSpan ::
  "string \<Rightarrow> span_options \<Rightarrow> (nat \<Rightarrow> tracer \<Rightarrow> 'r \<times> tracer) \<Rightarrow> tracer \<Rightarrow> 'r \<times> tracer" where
  "startActiveSpan name options fn tr =
     fn (next_span tr)
        (tr\<lparr>next_span := Suc (next_span tr),
            calls := calls tr @ [(next_span tr, Start name options)]\<rparr>)"

definition setAttribute :: "nat \<Rightarrow> string \<Rightarrow> js_value \<Rightarrow> tracer \<Rightarrow> tracer" where
  "setAttribute span key v tr = tr\<lparr>calls := calls tr @ [(span, SetAttribute key v)]\<rparr>"

definition recordException :: "nat \<Rightarrow> js_value \<Rightarrow> tracer \<Rightarrow> tracer" where
  "recordException span err tr = tr\<lparr>calls := calls tr @ [(span, RecordException err)]\<rparr>"

definition setStatus :: "nat \<Rightarrow> span_status_code \<Rightarrow> string \<Rightarrow> tracer \<Rightarrow> tracer" where
  "setStatus span code message tr = tr\<lparr>calls := calls tr @ [(span, SetStatus code message)]\<rparr>"

definition span_end :: "nat \<Rightarrow> tracer \<Rightarrow> tracer" where
  "span_end span tr = tr\<lparr>calls := calls tr @ [(span, End)]\<rparr>"

section \<open>The instrumented entry points\<close>

text \<open>
  An entry point of the query builder takes its receiver and its arguments and either
  returns a result (\<open>Inr\<close>) or throws a value (\<open>Inl\<close>); awaiting it is running it. It
  runs in the tracer's state and may itself make calls on the tracer, as an entry point
  that has already been instrumented does. In a catch block the argument
  \<^verbatim>\<open>String(err)\<close> is evaluated before \<^verbatim>\<open>setStatus\<close> is called: when the conversion throws,
  no status is set, what the conversion threw leaves the block in place of \<open>err\<close>, and
  \<^verbatim>\<open>finally\<close> still ends the span.
\<close>

record 'row query_result =
  rows :: "'row list"

type_synonym ('this, 'cb, 'a) execute_method =
  "'this \<Rightarrow> 'cb \<Rightarrow> tracer \<Rightarrow> (js_value + 'a) \<times> tracer"

type_synonym ('this, 'id, 'row) executeQuery_method =
  "'this \<Rightarrow> compiled_query \<Rightarrow> 'id \<Rightarrow> tracer \<Rightarrow> (js_value + 'row query_result) \<times> tracer"

record ('t, 'cb, 'a, 'e, 'id, 'row) prototypes =
  TransactionBuilder_execute :: "('t, 'cb, 'a) execute_method"
  DefaultQueryExecutor_executeQuery :: "('e, 'id, 'row) executeQuery_method"

definition has_string_code :: "js_value \<Rightarrow> bool" where
  \<comment> \<open>the condition of the first \<^verbatim>\<open>if\<close> of both catch blocks\<close>
  "has_string_code err =
     (typeof err = ''object'' \<and> err \<noteq> JNull \<and> has_property err ''code'' \<and>
      typeof (get_property err ''code'') = ''string'')"

definition instrumented_execute ::
  "('t, 'cb, 'a) execute_method \<Rightarrow> ('t, 'cb, 'a) execute_method" where
  \<comment> \<open>the function assigned to \<^verbatim>\<open>TransactionBuilder.prototype.execute\<close>\<close>
  "instrumented_execute transactionBuilderExecute this cb =
     (let spanOptions = \<lparr>kind = INTERNAL, attributes = [(''db.system.name'', JStr ''postgres'')]\<rparr>
      in startActiveSpan ''TRANSACTION'' spanOptions (\<lambda>span tr.
           case transactionBuilderExecute this cb tr of
             (Inr res, tr1) \<Rightarrow> (Inr res, span_end span tr1)
           | (Inl err, tr1) \<Rightarrow>
               (let tr2 = (if has_string_code err
                           then setAttribute span ''db.response.status_code''
                                  (get_property err ''code'') tr1
                           else tr1);
                    tr3 = (if isError err then recordException span err tr2 else tr2)
                in case String_js err of
                     Inl thrown \<Rightarrow> (Inl thrown, span_end span tr3)
                   | Inr message \<Rightarrow>
                       (Inl err, span_end span (setStatus span ERROR message tr3)))))"

definition instrumented_executeQuery ::
  "('e, 'id, 'row) executeQuery_method \<Rightarrow> ('e, 'id, 'row) executeQuery_method" where
  \<comment> \<open>the function assigned to \<^verbatim>\<open>DefaultQueryExecutor.prototype.executeQuery\<close>; the span
      name is an argument of \<^verbatim>\<open>startActiveSpan\<close>, so a summarizer that throws does so
      before any span exists\<close>
  "instrumented_executeQuery defaultQueryExecutorExecuteQuery this query' id' tr0 =
     (let spanOptions = \<lparr>kind = INTERNAL,
                          attributes = [(''db.system.name'', JStr ''postgres''),
                                        (''db.query.text'', JStr (sql query'))]\<rparr>
      in case summarizeQuery query' of
           Inl thrown \<Rightarrow> (Inl thrown, tr0)
         | Inr name \<Rightarrow>
             startActiveSpan name spanOptions (\<lambda>span tr.
               case defaultQueryExecutorExecuteQuery this query' id' tr of
                 (Inr res, tr1) \<Rightarrow>
                   (Inr res,
                    span_end span
                      (setAttribute span ''db.response.returned_rows''
                         (JNum (of_nat (length (rows res)))) tr1))
               | (Inl err, tr1) \<Rightarrow>
                   (let tr2 = (if has_string_code err
                               then setAttribute span ''db.response.status_code''
                                      (get_property err ''code'') tr1
                               else tr1);
                        tr3 = (if isError err then recordException span err tr2 else tr2)
                    in case String_js err of
                         Inl thrown \<Rightarrow> (Inl thrown, span_end span tr3)
                       | Inr message \<Rightarrow>
                           (Inl err, span_end span (setStatus span ERROR message tr3)))) tr0)"

definition setupInstrumentation ::
  "('t, 'cb, 'a, 'e, 'id, 'row) prototypes \<Rightarrow> ('t, 'cb, 'a, 'e, 'id, 'row) prototypes" where
  \<comment> \<open>each entry point is read, then replaced by the wrapper around what was read\<close>
  "setupInstrumentation lib =
     (let transactionBuilderExecute = TransactionBuilder_execute lib;
          lib1 = lib\<lparr>TransactionBuilder_execute := instrumented_execute transactionBuilderExecute\<rparr>;
          defaultQueryExecutorExecuteQuery = DefaultQueryExecutor_executeQuery lib1
      in lib1\<lparr>DefaultQueryExecutor_executeQuery :=
                 instrumented_executeQuery defaultQueryExecutorExecuteQuery\<rparr>)"

section \<open>Observations used in the statements\<close>

text \<open>The tracer's state once a span has been started in it.\<close>

abbreviation started :: "string \<Rightarrow> span_options \<Rightarrow> tracer \<Rightarrow> tracer" where
  "started name options tr \<equiv>
     tr\<lparr>next_span := Suc (next_span tr),
        calls := calls tr @ [(next_span tr, Start name options)]\<rparr>"

abbreviation transaction_options :: span_options where
  "transaction_options \<equiv>
     \<lparr>kind = INTERNAL, attributes = [(''db.system.name'', JStr ''postgres'')]\<rparr>"

abbreviation query_options :: "compiled_query \<Rightarrow> span_options" where
  "query_options q \<equiv>
     \<lparr>kind = INTERNAL,
      attributes = [(''db.system.name'', JStr ''postgres''), (''db.query.text'', JStr (sql q))]\<rparr>"

text \<open>
  The calls a catch block makes on its span for the value it caught, and the value it
  throws: the caught value, or what converting it to a string threw.
\<close>

definition failure_calls :: "js_value \<Rightarrow> span_call list" where
  "failure_calls err =
     (if has_string_code err
      then [SetAttribute ''db.response.status_code'' (get_property err ''code'')] else [])
     @ (if isError err then [RecordException err] else [])
     @ (case String_js err of Inl thrown \<Rightarrow> [] | Inr message \<Rightarrow> [SetStatus ERROR message])"

definition catch_throws :: "js_value \<Rightarrow> js_value" where
  "catch_throws err = (case String_js err of Inl thrown \<Rightarrow> thrown | Inr message \<Rightarrow> err)"

text \<open>
  What the caller of a wrapper gets when the wrapped operation has finished with
  outcome \<open>r\<close>, and the calls the wrapper makes on its span after that: the body of
  \<^verbatim>\<open>try\<close> or of \<^verbatim>\<open>catch\<close>, then \<^verbatim>\<open>finally\<close>.
\<close>

definition caller_gets :: "js_value + 'a \<Rightarrow> js_value + 'a" where
  "caller_gets r = (case r of Inr res \<Rightarrow> Inr res | Inl err \<Rightarrow> Inl (catch_throws err))"

definition execute_calls :: "js_value + 'a \<Rightarrow> span_call list" where
  "execute_calls r = (case r of Inr res \<Rightarrow> [End] | Inl err \<Rightarrow> failure_calls err @ [End])"

definition executeQuery_calls :: "js_value + 'row query_result \<Rightarrow> span_call list" where
  "executeQuery_calls r =
     (case r of
        Inr res \<Rightarrow> [SetAttribute ''db.response.returned_rows'' (JNum (of_nat (length (rows res)))),
                    End]
      | Inl err \<Rightarrow> failure_calls err @ [End])"

text \<open>Calls that annotate a span: every call but its start and its end.\<close>

fun is_annotation :: "span_call \<Rightarrow> bool" where
  "is_annotation (Start name options) = False"
| "is_annotation End = False"
| "is_annotation c = True"

fun is_primitive :: "js_value \<Rightarrow> bool" where
  "is_primitive (JObject ps) = False"
| "is_primitive (JNullPrototypeObject ps) = False"
| "is_primitive (JError n m ps) = False"
| "is_primitive v = True"

text \<open>A root node that has the \<^verbatim>\<open>from\<close> field the delete case reads.\<close>

fun delete_has_from :: "root_operation_node \<Rightarrow> bool" where
  "delete_has_from (DeleteQueryNode None joins) = False"
| "delete_has_from root = True"

text \<open>Inputs of the examples.\<close>

abbreviation tracer0 :: tracer where
  "tracer0 \<equiv> \<lparr>next_span = 0, calls = []\<rparr>"

abbreviation unique_violation :: js_value where
  "unique_violation \<equiv>
     JError ''error'' ''duplicate key value violates unique constraint''
       [(''code'', JStr ''23505'')]"

abbreviation insert_into_users :: compiled_query where
  "insert_into_users \<equiv>
     \<lparr>sql = ''insert into users (id) values ($1)'',
      query = InsertQueryNode
                (Some (TableNode (SchemableIdentifierNode None (IdentifierNode ''users'')))),
      parameters = [JNum 1]\<rparr>"

abbreviation select_from_users :: compiled_query where
  "select_from_users \<equiv>
     \<lparr>sql = ''select * from public.users'',
      query = SelectQueryNode
                (Some (FromNode [Table (TableNode (SchemableIdentifierNode
                                          (Some (IdentifierNode ''public''))
                                          (IdentifierNode ''users'')))]))
                None,
      parameters = []\<rparr>"

abbreviation delete_without_from :: compiled_query where
  "delete_without_from \<equiv>
     \<lparr>sql = ''delete'', query = DeleteQueryNode None None, parameters = []\<rparr>"

text \<open>Original entry points of the examples: they make no call on the tracer.\<close>

definition transaction_throws :: "js_value \<Rightarrow> (unit, unit, string) execute_method" where
  "transaction_throws err this cb t = (Inl err, t)"

definition query_throws :: "js_value \<Rightarrow> (unit, unit, string) executeQuery_method" where
  "query_throws err this q i t = (Inl err, t)"

definition query_returns :: "string list \<Rightarrow> (unit, unit, string) executeQuery_method" where
  "query_returns names this q i t = (Inr \<lparr>rows = names\<rparr>, t)"

section \<open>What the wrappers do, for each outcome\<close>

lemmas summarize_defs = summarizeQuery_def getTableNames_def join_suffix_def

lemmas span_defs =
  startActiveSpan_def span_end_def setStatus_def recordException_def setAttribute_def

lemma execute_returns:
  assumes "orig this cb (started ''TRANSACTION'' transaction_options tr) = (Inr res, tr1)"
  shows "instrumented_execute orig this cb tr =
           (Inr res, tr1\<lparr>calls := calls tr1 @ [(next_span tr, End)]\<rparr>)"
  using assms by (simp add: instrumented_execute_def span_defs)

lemma execute_throws:
  assumes "orig this cb (started ''TRANSACTION'' transaction_options tr) = (Inl err, tr1)"
  shows "instrumented_execute orig this cb tr =
           (Inl (catch_throws err),
            tr1\<lparr>calls := calls tr1 @ map (Pair (next_span tr)) (failure_calls err @ [End])\<rparr>)"
  using assms
  by (simp add: instrumented_execute_def span_defs failure_calls_def catch_throws_def
      split: sum.splits)

lemma executeQuery_returns:
  assumes "summarizeQuery q = Inr name"
    and "orig this q i (started name (query_options q) tr) = (Inr res, tr1)"
  shows "instrumented_executeQuery orig this q i tr =
           (Inr res,
            tr1\<lparr>calls := calls tr1 @
                   [(next_span tr, SetAttribute ''db.response.returned_rows''
                                     (JNum (of_nat (length (rows res))))),
                    (next_span tr, End)]\<rparr>)"
  using assms by (simp add: instrumented_executeQuery_def span_defs)

lemma executeQuery_throws:
  assumes "summarizeQuery q = Inr name"
    and "orig this q i (started name (query_options q) tr) = (Inl err, tr1)"
  shows "instrumented_executeQuery orig this q i tr =
           (Inl (catch_throws err),
            tr1\<lparr>calls := calls tr1 @ map (Pair (next_span tr)) (failure_calls err @ [End])\<rparr>)"
  using assms
  by (simp add: instrumented_executeQuery_def span_defs failure_calls_def catch_throws_def
      split: sum.splits)

lemma executeQuery_unnamed:
  assumes "summarizeQuery q = Inl thrown"
  shows "instrumented_executeQuery orig this q i tr = (Inl thrown, tr)"
  using assms by (simp add: instrumented_executeQuery_def)

lemma execute_outcome:
  assumes "orig this cb (started ''TRANSACTION'' transaction_options tr) = (r, tr1)"
  shows "instrumented_execute orig this cb tr =
           (caller_gets r,
            tr1\<lparr>calls := calls tr1 @ map (Pair (next_span tr)) (execute_calls r)\<rparr>)"
  using assms
  by (cases r) (simp_all add: execute_returns execute_throws execute_calls_def caller_gets_def)

lemma executeQuery_outcome:
  assumes "summarizeQuery q = Inr name"
    and "orig this q i (started name (query_options q) tr) = (r, tr1)"
  shows "instrumented_executeQuery orig this q i tr =
           (caller_gets r,
            tr1\<lparr>calls := calls tr1 @ map (Pair (next_span tr)) (executeQuery_calls r)\<rparr>)"
  using assms
  by (cases r)
    (simp_all add: executeQuery_returns executeQuery_throws executeQuery_calls_def
      caller_gets_def)


lemma failure_calls_annotate: "list_all is_annotation (failure_calls err)"
  by (simp add: failure_calls_def split: sum.splits)

lemma has_string_code_iff:
  "has_string_code err \<longleftrightarrow> (\<exists>c. map_of (properties err) ''code'' = Some (JStr c))"
proof -
  have t: "typeof v = ''string'' \<longleftrightarrow> (\<exists>c. v = JStr c)" for v
    by (cases v) simp_all
  show ?thesis
    by (cases err) (auto simp: has_string_code_def has_property_def get_property_def t)
qed

text \<open>
  The values whose conversion to a string throws: an object with an own \<^verbatim>\<open>toString\<close>
  property, and an object without a prototype. Every primitive is converted.
\<close>

lemma String_js_throws_iff:
  "(\<exists>thrown. String_js err = Inl thrown) \<longleftrightarrow>
     (\<exists>ps. err = JNullPrototypeObject ps) \<or>
     (\<exists>ps. err = JObject ps \<and> map_of ps ''toString'' \<noteq> None) \<or>
     (\<exists>n m ps. err = JError n m ps \<and> map_of ps ''toString'' \<noteq> None)"
  by (cases err) auto

lemma String_js_primitive: "is_primitive err \<Longrightarrow> \<exists>message. String_js err = Inr message"
  by (cases err) auto

lemma String_js_schemable_identifier_object:
  "String_js (schemable_identifier_object node) = Inr ''[object Object]''"
  by (cases node rule: schemable_identifier_object.cases) simp_all

section \<open>The span of an intercepted call\<close>

text \<open>
  C1, as stated, fails: an intercepted query execution whose query the summarizer
  cannot name creates no span. The name is computed as an argument of
  \<^verbatim>\<open>startActiveSpan\<close>; for a delete node without its \<^verbatim>\<open>from\<close> field the summarizer
  throws, the wrapped execution throws the same \<^verbatim>\<open>TypeError\<close>, and the tracer has
  received no call.
\<close>

theorem unnamed_query_creates_no_span:
  "instrumented_executeQuery (query_returns [''ann'']) () delete_without_from () tracer0
     = (Inl (TypeError_undefined ''froms''), \<lparr>next_span = 0, calls = []\<rparr>)"
  by (simp add: instrumented_executeQuery_def summarize_defs)

text \<open>
  C1, amended. An intercepted transaction execution, and an intercepted query execution
  whose query the summarizer names (every root node of the query builder's types),
  starts exactly one span and ends exactly one span, whether the wrapped operation
  returns or throws. Let the wrapped operation, run after the wrapper has started its
  span, add the calls \<open>inner\<close> to the tracer and finish with outcome \<open>r\<close>. Then the calls
  the intercepted execution leaves are: those made before, the one start of the span,
  \<open>inner\<close>, some annotations \<open>own\<close> of that span (attributes, exception, status; no
  start and no end), and last the one end of the span. The caller gets the result
  returned, or the value thrown by the catch block.
\<close>

theorem one_span_started_and_ended:
  "(orig this cb (started ''TRANSACTION'' transaction_options tr) = (r, tr1) \<and>
    calls tr1 = calls tr @ [(next_span tr, Start ''TRANSACTION'' transaction_options)] @ inner
    \<longrightarrow> (\<exists>own. instrumented_execute orig this cb tr =
                 (caller_gets r,
                  tr1\<lparr>calls := calls tr
                           @ [(next_span tr, Start ''TRANSACTION'' transaction_options)]
                           @ inner @ map (Pair (next_span tr)) own
                           @ [(next_span tr, End)]\<rparr>)
               \<and> list_all is_annotation own))
   \<and>
   (summarizeQuery q = Inr name \<and>
    origq thisq q i (started name (query_options q) tr) = (rq, trq) \<and>
    calls trq = calls tr @ [(next_span tr, Start name (query_options q))] @ innerq
    \<longrightarrow> (\<exists>own. instrumented_executeQuery origq thisq q i tr =
                 (caller_gets rq,
                  trq\<lparr>calls := calls tr
                            @ [(next_span tr, Start name (query_options q))]
                            @ innerq @ map (Pair (next_span tr)) own
                            @ [(next_span tr, End)]\<rparr>)
               \<and> list_all is_annotation own))"
proof (intro conjI impI)
  assume a: "orig this cb (started ''TRANSACTION'' transaction_options tr) = (r, tr1) \<and>
    calls tr1 = calls tr @ [(next_span tr, Start ''TRANSACTION'' transaction_options)] @ inner"
  then have o: "orig this cb (started ''TRANSACTION'' transaction_options tr) = (r, tr1)"
    by simp
  from o have e: "instrumented_execute orig this cb tr =
      (caller_gets r, tr1\<lparr>calls := calls tr1 @ map (Pair (next_span tr)) (execute_calls r)\<rparr>)"
    by (rule execute_outcome)
  obtain own where own: "execute_calls r = own @ [End]" "list_all is_annotation own"
    by (cases r) (auto simp: execute_calls_def failure_calls_annotate)
  from a e own show "\<exists>own. instrumented_execute orig this cb tr =
                 (caller_gets r,
                  tr1\<lparr>calls := calls tr
                           @ [(next_span tr, Start ''TRANSACTION'' transaction_options)]
                           @ inner @ map (Pair (next_span tr)) own
                           @ [(next_span tr, End)]\<rparr>)
               \<and> list_all is_annotation own"
    by (intro exI [of _ own]) simp
next
  assume a: "summarizeQuery q = Inr name \<and>
    origq thisq q i (started name (query_options q) tr) = (rq, trq) \<and>
    calls trq = calls tr @ [(next_span tr, Start name (query_options q))] @ innerq"
  then have s: "summarizeQuery q = Inr name"
    and o: "origq thisq q i (started name (query_options q) tr) = (rq, trq)"
    by simp_all
  from s o have e: "instrumented_executeQuery origq thisq q i tr =
      (caller_gets rq,
       trq\<lparr>calls := calls trq @ map (Pair (next_span tr)) (executeQuery_calls rq)\<rparr>)"
    by (rule executeQuery_outcome)
  obtain own where own: "executeQuery_calls rq = own @ [End]" "list_all is_annotation own"
  proof (cases rq)
    case (Inl err)
    then show ?thesis
      using that [of "failure_calls err"]
      by (simp add: executeQuery_calls_def failure_calls_annotate)
  next
    case (Inr res)
    then show ?thesis
      using that [of "[SetAttribute ''db.response.returned_rows''
                         (JNum (of_nat (length (rows res))))]"]
      by (simp add: executeQuery_calls_def)
  qed
  from a e own show "\<exists>own. instrumented_executeQuery origq thisq q i tr =
                 (caller_gets rq,
                  trq\<lparr>calls := calls tr
                            @ [(next_span tr, Start name (query_options q))]
                            @ innerq @ map (Pair (next_span tr)) own
                            @ [(next_span tr, End)]\<rparr>)
               \<and> list_all is_annotation own"
    by (intro exI [of _ own]) simp
qed

text \<open>
  An instance: a transaction whose callback throws the string \<open>boom\<close>, and a query on
  \<open>public.users\<close> that returns three rows, each on a fresh tracer.
\<close>

theorem one_span_started_and_ended_witness:
  "(\<exists>own. instrumented_execute (transaction_throws (JStr ''boom'')) () () tracer0 =
           (Inl (JStr ''boom''),
            \<lparr>next_span = 1,
             calls = [(0, Start ''TRANSACTION'' transaction_options)]
                     @ map (Pair 0) own @ [(0, End)]\<rparr>)
         \<and> list_all is_annotation own)
   \<and>
   (\<exists>own. instrumented_executeQuery (query_returns [''ann'', ''bob'', ''cy''])
             () select_from_users () tracer0 =
           (Inr \<lparr>rows = [''ann'', ''bob'', ''cy'']\<rparr>,
            \<lparr>next_span = 1,
             calls = [(0, Start ''SELECT FROM public.users'' (query_options select_from_users))]
                     @ map (Pair 0) own @ [(0, End)]\<rparr>)
         \<and> list_all is_annotation own)"
proof -
  let ?orig = "transaction_throws (JStr ''boom'')"
  let ?origq = "query_returns [''ann'', ''bob'', ''cy'']"
  let ?t1 = "started ''TRANSACTION'' transaction_options tracer0"
  let ?tq = "started ''SELECT FROM public.users'' (query_options select_from_users) tracer0"
  have h1: "?orig () () ?t1 = (Inl (JStr ''boom''), ?t1) \<and>
            calls ?t1 = calls tracer0
              @ [(next_span tracer0, Start ''TRANSACTION'' transaction_options)] @ []"
    by (simp add: transaction_throws_def)
  have h2: "summarizeQuery select_from_users = Inr ''SELECT FROM public.users'' \<and>
            ?origq () select_from_users () ?tq = (Inr \<lparr>rows = [''ann'', ''bob'', ''cy'']\<rparr>, ?tq) \<and>
            calls ?tq = calls tracer0
              @ [(next_span tracer0,
                  Start ''SELECT FROM public.users'' (query_options select_from_users))] @ []"
    by (simp add: summarize_defs query_returns_def)
  note a = one_span_started_and_ended
    [where orig = ?orig and this = "()" and cb = "()" and tr = tracer0
       and r = "Inl (JStr ''boom'')" and inner = "[]" and ?tr1.0 = ?t1,
     THEN conjunct1, THEN mp, OF h1]
  note b = one_span_started_and_ended
    [where origq = ?origq and thisq = "()" and q = select_from_users and i = "()"
       and tr = tracer0 and name = "''SELECT FROM public.users''"
       and rq = "Inr \<lparr>rows = [''ann'', ''bob'', ''cy'']\<rparr>" and innerq = "[]" and trq = ?tq,
     THEN conjunct2, THEN mp, OF h2]
  from a b show ?thesis by (simp add: caller_gets_def catch_throws_def)
qed

section \<open>The names the summarizer gives\<close>

text \<open>
  A list of joins holds join nodes, which are not table nodes, so it contributes no
  name: the suffix for it is \<open> JOIN \<close> alone.
\<close>

lemma join_nodes_contribute_no_name:
  "getTableNames (map (\<lambda>(joinType, t). JoinNode joinType t) js) = []"
  by (induction js) (auto simp: getTableNames_def)

text \<open>
  C2. The name the summarizer gives to a refresh of a materialized view. The query
  builder keeps the view's name as a node object, and the template literal of the
  \<^verbatim>\<open>RefreshMaterializedViewNode\<close> case converts that object with \<^verbatim>\<open>String\<close>: for the view
  \<open>mv_totals\<close> refreshed concurrently, the span name is
  \<open>REFRESH MATERIALIZED VIEW [object Object] CONCURRENTLY\<close>, not
  \<open>REFRESH MATERIALIZED VIEW mv_totals CONCURRENTLY\<close>.
\<close>

theorem refresh_name_rendered_as_object:
  "summarizeQuery
     \<lparr>sql = ''refresh materialized view concurrently mv_totals'',
      query = RefreshMaterializedViewNode
                (Some (SchemableIdentifierNode None (IdentifierNode ''mv_totals'')))
                (Some True),
      parameters = []\<rparr>
   = Inr ''REFRESH MATERIALIZED VIEW [object Object] CONCURRENTLY''"
  by (simp add: summarizeQuery_def)

text \<open>
  C5, as stated, fails: for a delete node without its \<^verbatim>\<open>from\<close> field the summarizer
  returns no name; reading \<^verbatim>\<open>query.from.froms\<close> throws a \<^verbatim>\<open>TypeError\<close>.
\<close>

theorem delete_without_from_throws:
  "summarizeQuery \<lparr>sql = ''delete'', query = DeleteQueryNode None None, parameters = []\<rparr>
   = Inl (TypeError_undefined ''froms'')"
  by (simp add: summarizeQuery_def)

text \<open>
  C5, amended. The summarizer is a function of the root node alone (it neither takes
  nor returns the tracer's state), and it returns a span name for every root node of
  every kind except a delete node without its \<^verbatim>\<open>from\<close> field, for which it throws a
  \<^verbatim>\<open>TypeError\<close>. A delete node whose list of source tables is empty gets the name
  \<open>DELETE FROM \<close> followed by the join suffix.
\<close>

theorem summarizer_total_with_from:
  "(delete_has_from (query cq) \<longrightarrow> (\<exists>name. summarizeQuery cq = Inr name)) \<and>
   (\<not> delete_has_from (query cq) \<longrightarrow> summarizeQuery cq = Inl (TypeError_undefined ''froms'')) \<and>
   summarizeQuery (cq\<lparr>query := DeleteQueryNode (Some (FromNode [])) joins\<rparr>)
     = Inr (''DELETE FROM '' @ join_suffix joins)"
proof -
  have "\<exists>name. summarizeRoot root = Inr name" if "delete_has_from root" for root
    using that
    by (cases root rule: delete_has_from.cases)
      (auto simp: String_js_schemable_identifier_object split: option.splits from_node.splits)
  moreover have "summarizeRoot root = Inl (TypeError_undefined ''froms'')"
    if "\<not> delete_has_from root" for root
    using that by (cases root rule: delete_has_from.cases) auto
  ultimately show ?thesis
    by (simp add: summarizeQuery_def getTableNames_def)
qed

text \<open>An instance: a delete node with an empty list of sources, and one without \<^verbatim>\<open>from\<close>.\<close>

theorem summarizer_total_with_from_witness:
  "delete_has_from (query \<lparr>sql = ''delete from t'', query = DeleteQueryNode (Some (FromNode [])) None, parameters = []\<rparr>) \<and>
   (\<exists>name. summarizeQuery \<lparr>sql = ''delete from t'', query = DeleteQueryNode (Some (FromNode [])) None, parameters = []\<rparr> = Inr name) \<and>
   \<not> delete_has_from (query \<lparr>sql = ''delete'', query = DeleteQueryNode None None, parameters = []\<rparr>) \<and>
   summarizeQuery \<lparr>sql = ''delete'', query = DeleteQueryNode None None, parameters = []\<rparr> = Inl (TypeError_undefined ''froms'')"
  using summarizer_total_with_from [of "\<lparr>sql = ''delete from t'', query = DeleteQueryNode (Some (FromNode [])) None, parameters = []\<rparr>"]
    summarizer_total_with_from [of "\<lparr>sql = ''delete'', query = DeleteQueryNode None None, parameters = []\<rparr>"]
  by simp

section \<open>The failure path\<close>







section \<open>The success path of a query\<close>

text \<open>
  C4. When the wrapped query execution returns \<open>res\<close>, the wrapper sets the attribute
  \<open>db.response.returned_rows\<close> to the number of rows of \<open>res\<close>, ends the span, and
  returns \<open>res\<close> itself.
\<close>

theorem returned_rows_recorded_result_unchanged:
  "summarizeQuery q = Inr name \<and>
   orig this q i (started name (query_options q) tr) = (Inr res, tr1) \<longrightarrow>
     instrumented_executeQuery orig this q i tr =
       (Inr res,
        tr1\<lparr>calls := calls tr1 @
               [(next_span tr, SetAttribute ''db.response.returned_rows''
                                 (JNum (of_nat (length (rows res))))),
                (next_span tr, End)]\<rparr>)"
  by (simp add: executeQuery_returns)

text \<open>An instance: a select on \<open>public.users\<close> that returns three rows.\<close>

theorem returned_rows_recorded_result_unchanged_witness:
  "instrumented_executeQuery
      (\<lambda>(this :: unit) q (i :: unit) t. (Inr \<lparr>rows = [''ann'', ''bob'', ''cy'']\<rparr>, t))
      () select_from_users () tracer0
    = (Inr \<lparr>rows = [''ann'', ''bob'', ''cy'']\<rparr>,
       \<lparr>next_span = 1,
        calls = [(0, Start ''SELECT FROM public.users'' (query_options select_from_users)),
                 (0, SetAttribute ''db.response.returned_rows'' (JNum 3)),
                 (0, End)]\<rparr>)"
proof -
  let ?orig = "\<lambda>(this :: unit) (q :: compiled_query) (i :: unit) (t :: tracer).
                 (Inr \<lparr>rows = [''ann'', ''bob'', ''cy'']\<rparr> :: js_value + string query_result, t)"
  have h: "summarizeQuery select_from_users = Inr ''SELECT FROM public.users'' \<and>
           ?orig () select_from_users ()
              (started ''SELECT FROM public.users'' (query_options select_from_users) tracer0)
             = (Inr \<lparr>rows = [''ann'', ''bob'', ''cy'']\<rparr>,
                started ''SELECT FROM public.users'' (query_options select_from_users) tracer0)"
    by (simp add: summarize_defs)
  from returned_rows_recorded_result_unchanged
    [where orig = ?orig and this = "()" and q = select_from_users and i = "()"
       and tr = tracer0 and name = "''SELECT FROM public.users''"
       and res = "\<lparr>rows = [''ann'', ''bob'', ''cy'']\<rparr>"
       and ?tr1.0 = "started ''SELECT FROM public.users'' (query_options select_from_users) tracer0"]
    h
  show ?thesis by simp
qed

section \<open>How a span starts\<close>

text \<open>
  C7, as stated, fails: a wrapped query execution whose query the summarizer cannot
  name starts no span. For a delete node without its \<^verbatim>\<open>from\<close> field the summarizer
  throws while the arguments of \<^verbatim>\<open>startActiveSpan\<close> are evaluated, and the tracer receives
  no call.
\<close>

theorem unnamed_query_starts_no_span:
  "instrumented_executeQuery (query_throws (JStr ''boom'')) ()
      \<lparr>sql = ''delete'', query = DeleteQueryNode None (Some []), parameters = []\<rparr> () tracer0
     = (Inl (TypeError_undefined ''froms''), \<lparr>next_span = 0, calls = []\<rparr>)"
  by (simp add: instrumented_executeQuery_def summarize_defs)

text \<open>
  C7, amended. The wrapped transaction execution runs the original in the tracer's
  state in which exactly one call has been added, the start of a span named
  \<open>TRANSACTION\<close> of kind \<open>INTERNAL\<close> with the one attribute \<open>db.system.name = postgres\<close>,
  and the caller gets the outcome of the original in that state, passed through the
  wrapper. If the original adds the calls \<open>inner\<close>, the calls of the intercepted
  execution are those made before, that start, \<open>inner\<close>, and what the wrapper adds
  afterwards. The same holds for a wrapped query execution whose query the summarizer
  names, with that name and the attributes \<open>db.system.name = postgres\<close> and
  \<open>db.query.text\<close>, the \<^verbatim>\<open>sql\<close> of the compiled query.
\<close>

theorem span_names_and_initial_attributes:
  "fst (instrumented_execute orig this cb tr) =
     caller_gets
       (fst (orig this cb
               (tr\<lparr>next_span := Suc (next_span tr),
                   calls := calls tr @
                     [(next_span tr,
                       Start ''TRANSACTION''
                         \<lparr>kind = INTERNAL,
                          attributes = [(''db.system.name'', JStr ''postgres'')]\<rparr>)]\<rparr>)))
   \<and>
   (calls (snd (orig this cb (started ''TRANSACTION'' transaction_options tr)))
      = calls (started ''TRANSACTION'' transaction_options tr) @ inner \<longrightarrow>
    (\<exists>after. calls (snd (instrumented_execute orig this cb tr)) =
       calls tr @
       [(next_span tr,
         Start ''TRANSACTION''
           \<lparr>kind = INTERNAL, attributes = [(''db.system.name'', JStr ''postgres'')]\<rparr>)]
       @ inner @ after))
   \<and>
   (summarizeQuery q = Inr name \<longrightarrow>
    fst (instrumented_executeQuery origq thisq q i tr) =
      caller_gets
        (fst (origq thisq q i
                (tr\<lparr>next_span := Suc (next_span tr),
                    calls := calls tr @
                      [(next_span tr,
                        Start name
                          \<lparr>kind = INTERNAL,
                           attributes = [(''db.system.name'', JStr ''postgres''),
                                         (''db.query.text'', JStr (sql q))]\<rparr>)]\<rparr>))))
   \<and>
   (summarizeQuery q = Inr name \<and>
    calls (snd (origq thisq q i (started name (query_options q) tr)))
      = calls (started name (query_options q) tr) @ innerq \<longrightarrow>
    (\<exists>after. calls (snd (instrumented_executeQuery origq thisq q i tr)) =
       calls tr @
       [(next_span tr,
         Start name
           \<lparr>kind = INTERNAL,
            attributes = [(''db.system.name'', JStr ''postgres''),
                          (''db.query.text'', JStr (sql q))]\<rparr>)]
       @ innerq @ after))"
proof -
  obtain r tr1 where o: "orig this cb (started ''TRANSACTION'' transaction_options tr) = (r, tr1)"
    by (cases "orig this cb (started ''TRANSACTION'' transaction_options tr)")
  from o have t: "instrumented_execute orig this cb tr =
      (caller_gets r, tr1\<lparr>calls := calls tr1 @ map (Pair (next_span tr)) (execute_calls r)\<rparr>)"
    by (rule execute_outcome)
  show ?thesis
  proof (intro conjI impI)
    from t o show "fst (instrumented_execute orig this cb tr) =
      caller_gets (fst (orig this cb (started ''TRANSACTION'' transaction_options tr)))"
      by simp
  next
    assume "calls (snd (orig this cb (started ''TRANSACTION'' transaction_options tr)))
      = calls (started ''TRANSACTION'' transaction_options tr) @ inner"
    with t o show "\<exists>after. calls (snd (instrumented_execute orig this cb tr)) =
       calls tr @ [(next_span tr, Start ''TRANSACTION'' transaction_options)] @ inner @ after"
      by simp
  next
    assume s: "summarizeQuery q = Inr name"
    obtain rq trq where oq: "origq thisq q i (started name (query_options q) tr) = (rq, trq)"
      by (cases "origq thisq q i (started name (query_options q) tr)")
    from s oq have "instrumented_executeQuery origq thisq q i tr =
      (caller_gets rq,
       trq\<lparr>calls := calls trq @ map (Pair (next_span tr)) (executeQuery_calls rq)\<rparr>)"
      by (rule executeQuery_outcome)
    with oq show "fst (instrumented_executeQuery origq thisq q i tr) =
      caller_gets (fst (origq thisq q i (started name (query_options q) tr)))"
      by simp
  next
    assume a: "summarizeQuery q = Inr name \<and>
      calls (snd (origq thisq q i (started name (query_options q) tr)))
        = calls (started name (query_options q) tr) @ innerq"
    obtain rq trq where oq: "origq thisq q i (started name (query_options q) tr) = (rq, trq)"
      by (cases "origq thisq q i (started name (query_options q) tr)")
    from a have s: "summarizeQuery q = Inr name" by simp
    from s oq have "instrumented_executeQuery origq thisq q i tr =
      (caller_gets rq,
       trq\<lparr>calls := calls trq @ map (Pair (next_span tr)) (executeQuery_calls rq)\<rparr>)"
      by (rule executeQuery_outcome)
    with a oq show "\<exists>after. calls (snd (instrumented_executeQuery origq thisq q i tr)) =
       calls tr @ [(next_span tr, Start name (query_options q))] @ innerq @ after"
      by simp
  qed
qed

text \<open>
  An instance: a transaction that returns, and a select whose original returns the
  tracer's state it was run in as its one row.
\<close>

theorem span_names_and_initial_attributes_witness:
  "(\<exists>after. calls (snd (instrumented_execute
                 (\<lambda>(this :: unit) (cb :: unit) t. (Inr (7 :: nat) :: js_value + nat, t)) () ()
                 tracer0)) =
       [(0, Start ''TRANSACTION''
              \<lparr>kind = INTERNAL, attributes = [(''db.system.name'', JStr ''postgres'')]\<rparr>)]
       @ after)
   \<and>
   fst (instrumented_executeQuery
          (\<lambda>(this :: unit) q (i :: unit) t. (Inr \<lparr>rows = [t]\<rparr>, t))
          () select_from_users () tracer0)
     = Inr \<lparr>rows =
          [\<lparr>next_span = 1,
            calls = [(0, Start ''SELECT FROM public.users''
                            \<lparr>kind = INTERNAL,
                             attributes = [(''db.system.name'', JStr ''postgres''),
                                           (''db.query.text'',
                                            JStr ''select * from public.users'')]\<rparr>)]\<rparr>]\<rparr>
   \<and>
   (\<exists>after. calls (snd (instrumented_executeQuery
                 (\<lambda>(this :: unit) q (i :: unit) t. (Inr \<lparr>rows = [t]\<rparr>, t))
                 () select_from_users () tracer0)) =
       [(0, Start ''SELECT FROM public.users''
              \<lparr>kind = INTERNAL,
               attributes = [(''db.system.name'', JStr ''postgres''),
                             (''db.query.text'', JStr ''select * from public.users'')]\<rparr>)]
       @ after)"
proof -
  let ?orig = "\<lambda>(this :: unit) (cb :: unit) (t :: tracer). (Inr (7 :: nat) :: js_value + nat, t)"
  let ?origq = "\<lambda>(this :: unit) (q :: compiled_query) (i :: unit) (t :: tracer).
                  (Inr \<lparr>rows = [t]\<rparr> :: js_value + tracer query_result, t)"
  let ?t1 = "started ''TRANSACTION'' transaction_options tracer0"
  let ?tq = "started ''SELECT FROM public.users'' (query_options select_from_users) tracer0"
  have s: "summarizeQuery select_from_users = Inr ''SELECT FROM public.users''"
    by (simp add: summarize_defs)
  have h1: "calls (snd (?orig () () ?t1)) = calls ?t1 @ []"
    by simp
  have h2: "summarizeQuery select_from_users = Inr ''SELECT FROM public.users'' \<and>
            calls (snd (?origq () select_from_users () ?tq)) = calls ?tq @ []"
    using s by simp
  note inst = span_names_and_initial_attributes
    [where orig = ?orig and this = "()" and cb = "()" and tr = tracer0 and inner = "[]"
       and origq = ?origq and thisq = "()" and q = select_from_users and i = "()"
       and name = "''SELECT FROM public.users''" and innerq = "[]"]
  note a = inst [THEN conjunct2, THEN conjunct1, THEN mp, OF h1]
  note b = inst [THEN conjunct2, THEN conjunct2, THEN conjunct1, THEN mp, OF s]
  note c = inst [THEN conjunct2, THEN conjunct2, THEN conjunct2, THEN mp, OF h2]
  from a b c show ?thesis by (simp add: caller_gets_def)
qed

section \<open>The status-code attribute and the status\<close>

lemma status_code_in_failure_calls:
  "(\<exists>v. SetAttribute ''db.response.status_code'' v \<in> set (failure_calls err))
     \<longleftrightarrow> has_string_code err"
  by (auto simp: failure_calls_def split: sum.splits)

lemma has_string_code_object:
  "has_string_code err \<longleftrightarrow>
     typeof err = ''object'' \<and> err \<noteq> JNull \<and>
     (\<exists>c. map_of (properties err) ''code'' = Some (JStr c))"
  by (cases err) (auto simp: has_string_code_iff)

lemma primitive_no_string_code: "is_primitive err \<Longrightarrow> \<not> has_string_code err"
  by (cases err) (auto simp: has_string_code_iff)

lemma status_code_in_execute_calls:
  "(\<exists>v. SetAttribute ''db.response.status_code'' v \<in> set (execute_calls r))
     \<longleftrightarrow> (\<exists>err. r = Inl err \<and> has_string_code err)"
  using status_code_in_failure_calls by (cases r) (auto simp: execute_calls_def)

lemma status_code_in_executeQuery_calls:
  "(\<exists>v. SetAttribute ''db.response.status_code'' v \<in> set (executeQuery_calls r))
     \<longleftrightarrow> (\<exists>err. r = Inl err \<and> has_string_code err)"
  using status_code_in_failure_calls by (cases r) (auto simp: executeQuery_calls_def)

text \<open>
  C9. Among the calls a wrapper makes once the wrapped operation has finished, there is
  a \<^verbatim>\<open>setAttribute\<close> of \<open>db.response.status_code\<close> exactly when the operation threw a
  value that is an object, not \<^verbatim>\<open>null\<close>, whose \<open>code\<close> property is a string. A thrown
  primitive never produces it. (The caller gets the result returned, or the value
  thrown by the catch block.)
\<close>

theorem status_code_only_for_object_with_string_code:
  "(orig this cb (started ''TRANSACTION'' transaction_options tr) = (r, tr1) \<longrightarrow>
      (\<exists>own. instrumented_execute orig this cb tr =
                (caller_gets r, tr1\<lparr>calls := calls tr1 @ map (Pair (next_span tr)) own\<rparr>)
         \<and> ((\<exists>v. SetAttribute ''db.response.status_code'' v \<in> set own) \<longleftrightarrow>
              (\<exists>err. r = Inl err \<and> typeof err = ''object'' \<and> err \<noteq> JNull \<and>
                     (\<exists>c. map_of (properties err) ''code'' = Some (JStr c))))
         \<and> ((\<exists>err. r = Inl err \<and> is_primitive err) \<longrightarrow>
              (\<forall>v. SetAttribute ''db.response.status_code'' v \<notin> set own))))
   \<and>
   (summarizeQuery q = Inr name \<and>
    origq thisq q i (started name (query_options q) tr) = (rq, trq) \<longrightarrow>
      (\<exists>own. instrumented_executeQuery origq thisq q i tr =
                (caller_gets rq, trq\<lparr>calls := calls trq @ map (Pair (next_span tr)) own\<rparr>)
         \<and> ((\<exists>v. SetAttribute ''db.response.status_code'' v \<in> set own) \<longleftrightarrow>
              (\<exists>err. rq = Inl err \<and> typeof err = ''object'' \<and> err \<noteq> JNull \<and>
                     (\<exists>c. map_of (properties err) ''code'' = Some (JStr c))))
         \<and> ((\<exists>err. rq = Inl err \<and> is_primitive err) \<longrightarrow>
              (\<forall>v. SetAttribute ''db.response.status_code'' v \<notin> set own))))"
proof (intro conjI impI)
  assume o: "orig this cb (started ''TRANSACTION'' transaction_options tr) = (r, tr1)"
  then have e: "instrumented_execute orig this cb tr =
      (caller_gets r,
       tr1\<lparr>calls := calls tr1 @ map (Pair (next_span tr)) (execute_calls r)\<rparr>)"
    by (rule execute_outcome)
  have i: "(\<exists>v. SetAttribute ''db.response.status_code'' v \<in> set (execute_calls r)) \<longleftrightarrow>
      (\<exists>err. r = Inl err \<and> typeof err = ''object'' \<and> err \<noteq> JNull \<and>
             (\<exists>c. map_of (properties err) ''code'' = Some (JStr c)))"
    unfolding status_code_in_execute_calls using has_string_code_object by simp
  have p: "(\<exists>err. r = Inl err \<and> is_primitive err) \<longrightarrow>
      (\<forall>v. SetAttribute ''db.response.status_code'' v \<notin> set (execute_calls r))"
    using status_code_in_execute_calls [of r] primitive_no_string_code by auto
  from e i p show "\<exists>own. instrumented_execute orig this cb tr =
                (caller_gets r, tr1\<lparr>calls := calls tr1 @ map (Pair (next_span tr)) own\<rparr>)
         \<and> ((\<exists>v. SetAttribute ''db.response.status_code'' v \<in> set own) \<longleftrightarrow>
              (\<exists>err. r = Inl err \<and> typeof err = ''object'' \<and> err \<noteq> JNull \<and>
                     (\<exists>c. map_of (properties err) ''code'' = Some (JStr c))))
         \<and> ((\<exists>err. r = Inl err \<and> is_primitive err) \<longrightarrow>
              (\<forall>v. SetAttribute ''db.response.status_code'' v \<notin> set own))"
    by blast
next
  assume a: "summarizeQuery q = Inr name \<and>
    origq thisq q i (started name (query_options q) tr) = (rq, trq)"
  then have s: "summarizeQuery q = Inr name"
    and o: "origq thisq q i (started name (query_options q) tr) = (rq, trq)"
    by simp_all
  from s o have e: "instrumented_executeQuery origq thisq q i tr =
      (caller_gets rq,
       trq\<lparr>calls := calls trq @ map (Pair (next_span tr)) (executeQuery_calls rq)\<rparr>)"
    by (rule executeQuery_outcome)
  have i: "(\<exists>v. SetAttribute ''db.response.status_code'' v \<in> set (executeQuery_calls rq)) \<longleftrightarrow>
      (\<exists>err. rq = Inl err \<and> typeof err = ''object'' \<and> err \<noteq> JNull \<and>
             (\<exists>c. map_of (properties err) ''code'' = Some (JStr c)))"
    unfolding status_code_in_executeQuery_calls using has_string_code_object by simp
  have p: "(\<exists>err. rq = Inl err \<and> is_primitive err) \<longrightarrow>
      (\<forall>v. SetAttribute ''db.response.status_code'' v \<notin> set (executeQuery_calls rq))"
    using status_code_in_executeQuery_calls [of rq] primitive_no_string_code by auto
  from e i p show "\<exists>own. instrumented_executeQuery origq thisq q i tr =
                (caller_gets rq, trq\<lparr>calls := calls trq @ map (Pair (next_span tr)) own\<rparr>)
         \<and> ((\<exists>v. SetAttribute ''db.response.status_code'' v \<in> set own) \<longleftrightarrow>
              (\<exists>err. rq = Inl err \<and> typeof err = ''object'' \<and> err \<noteq> JNull \<and>
                     (\<exists>c. map_of (properties err) ''code'' = Some (JStr c))))
         \<and> ((\<exists>err. rq = Inl err \<and> is_primitive err) \<longrightarrow>
              (\<forall>v. SetAttribute ''db.response.status_code'' v \<notin> set own))"
    by blast
qed

text \<open>
  An instance: a transaction that throws the string \<open>23505\<close>, which produces no
  attribute, and an insert that throws an error object with that code, which does.
\<close>

theorem status_code_only_for_object_with_string_code_witness:
  "(\<exists>own. instrumented_execute
             (\<lambda>(this :: unit) (cb :: unit) t. (Inl (JStr ''23505'') :: js_value + nat, t)) () ()
             tracer0 =
           (Inl (JStr ''23505''),
            \<lparr>next_span = 1,
             calls = [(0, Start ''TRANSACTION'' transaction_options)] @ map (Pair 0) own\<rparr>)
         \<and> (\<forall>v. SetAttribute ''db.response.status_code'' v \<notin> set own))
   \<and>
   (\<exists>own. instrumented_executeQuery
             (\<lambda>(this :: unit) q (i :: unit) t.
                 (Inl unique_violation :: js_value + nat query_result, t))
             () insert_into_users () tracer0 =
           (Inl unique_violation,
            \<lparr>next_span = 1,
             calls = [(0, Start ''INSERT INTO users'' (query_options insert_into_users))]
                     @ map (Pair 0) own\<rparr>)
         \<and> (\<exists>v. SetAttribute ''db.response.status_code'' v \<in> set own))"
proof -
  let ?orig = "\<lambda>(this :: unit) (cb :: unit) (t :: tracer).
                 (Inl (JStr ''23505'') :: js_value + nat, t)"
  let ?origq = "\<lambda>(this :: unit) (q :: compiled_query) (i :: unit) (t :: tracer).
                  (Inl unique_violation :: js_value + nat query_result, t)"
  let ?t1 = "started ''TRANSACTION'' transaction_options tracer0"
  let ?tq = "started ''INSERT INTO users'' (query_options insert_into_users) tracer0"
  have h1: "?orig () () ?t1 = (Inl (JStr ''23505''), ?t1)"
    by simp
  have h2: "summarizeQuery insert_into_users = Inr ''INSERT INTO users'' \<and>
            ?origq () insert_into_users () ?tq = (Inl unique_violation, ?tq)"
    by (simp add: summarize_defs)
  note a = status_code_only_for_object_with_string_code
    [where orig = ?orig and this = "()" and cb = "()" and tr = tracer0
       and r = "Inl (JStr ''23505'')" and ?tr1.0 = ?t1,
     THEN conjunct1, THEN mp, OF h1]
  note b = status_code_only_for_object_with_string_code
    [where origq = ?origq and thisq = "()" and q = insert_into_users and i = "()"
       and tr = tracer0 and name = "''INSERT INTO users''"
       and rq = "Inl unique_violation" and trq = ?tq,
     THEN conjunct2, THEN mp, OF h2]
  have g: "caller_gets (Inl (JStr ''23505'') :: js_value + nat) = Inl (JStr ''23505'')"
      "caller_gets (Inl unique_violation :: js_value + nat query_result) = Inl unique_violation"
    by (simp_all add: caller_gets_def catch_throws_def)
  from a have a': "\<exists>own. instrumented_execute ?orig () () tracer0 =
           (Inl (JStr ''23505''),
            \<lparr>next_span = 1,
             calls = [(0, Start ''TRANSACTION'' transaction_options)] @ map (Pair 0) own\<rparr>)
         \<and> (\<forall>v. SetAttribute ''db.response.status_code'' v \<notin> set own)"
    by (simp add: g)
  from b have b': "\<exists>own. instrumented_executeQuery ?origq () insert_into_users () tracer0 =
           (Inl unique_violation,
            \<lparr>next_span = 1,
             calls = [(0, Start ''INSERT INTO users'' (query_options insert_into_users))]
                     @ map (Pair 0) own\<rparr>)
         \<and> (\<exists>v. SetAttribute ''db.response.status_code'' v \<in> set own)"
    by (simp add: g)
  from a' b' show ?thesis ..
qed

lemma status_in_execute_calls:
  "(\<exists>code message. SetStatus code message \<in> set (execute_calls r)) \<longleftrightarrow>
     (\<exists>err message. r = Inl err \<and> String_js err = Inr message)"
proof (cases r)
  case (Inl err)
  then show ?thesis
    by (cases "String_js err") (simp_all add: execute_calls_def failure_calls_def)
next
  case (Inr res)
  then show ?thesis by (simp add: execute_calls_def)
qed

lemma status_in_executeQuery_calls:
  "(\<exists>code message. SetStatus code message \<in> set (executeQuery_calls r)) \<longleftrightarrow>
     (\<exists>err message. r = Inl err \<and> String_js err = Inr message)"
proof (cases r)
  case (Inl err)
  then show ?thesis
    by (cases "String_js err") (simp_all add: executeQuery_calls_def failure_calls_def)
next
  case (Inr res)
  then show ?thesis by (simp add: executeQuery_calls_def)
qed

text \<open>
  C10. When the wrapped operation returns, the wrapper makes no \<^verbatim>\<open>setStatus\<close> call: for a
  transaction its only call is \<^verbatim>\<open>end\<close>, for a query the \<open>db.response.returned_rows\<close>
  attribute and \<^verbatim>\<open>end\<close>. Among the calls a wrapper makes once the operation has
  finished there is a \<^verbatim>\<open>setStatus\<close> only when the operation threw: exactly when it threw
  a value that \<^verbatim>\<open>String\<close> converts.
\<close>

theorem status_set_only_on_failure:
  "(orig this cb (started ''TRANSACTION'' transaction_options tr) = (Inr res, tr1) \<longrightarrow>
      instrumented_execute orig this cb tr =
        (Inr res, tr1\<lparr>calls := calls tr1 @ [(next_span tr, End)]\<rparr>))
   \<and>
   (orig this cb (started ''TRANSACTION'' transaction_options tr) = (r, tr1) \<longrightarrow>
      (\<exists>own. instrumented_execute orig this cb tr =
                (caller_gets r, tr1\<lparr>calls := calls tr1 @ map (Pair (next_span tr)) own\<rparr>)
         \<and> ((\<exists>code message. SetStatus code message \<in> set own) \<longleftrightarrow>
              (\<exists>err message. r = Inl err \<and> String_js err = Inr message))))
   \<and>
   (summarizeQuery q = Inr name \<and>
    origq thisq q i (started name (query_options q) tr) = (Inr resq, trq) \<longrightarrow>
      instrumented_executeQuery origq thisq q i tr =
        (Inr resq,
         trq\<lparr>calls := calls trq @
                [(next_span tr, SetAttribute ''db.response.returned_rows''
                                  (JNum (of_nat (length (rows resq))))),
                 (next_span tr, End)]\<rparr>))
   \<and>
   (summarizeQuery q = Inr name \<and>
    origq thisq q i (started name (query_options q) tr) = (rq, trq) \<longrightarrow>
      (\<exists>own. instrumented_executeQuery origq thisq q i tr =
                (caller_gets rq, trq\<lparr>calls := calls trq @ map (Pair (next_span tr)) own\<rparr>)
         \<and> ((\<exists>code message. SetStatus code message \<in> set own) \<longleftrightarrow>
              (\<exists>err message. rq = Inl err \<and> String_js err = Inr message))))"
proof (intro conjI impI)
  assume "orig this cb (started ''TRANSACTION'' transaction_options tr) = (Inr res, tr1)"
  then show "instrumented_execute orig this cb tr =
        (Inr res, tr1\<lparr>calls := calls tr1 @ [(next_span tr, End)]\<rparr>)"
    by (rule execute_returns)
next
  assume "orig this cb (started ''TRANSACTION'' transaction_options tr) = (r, tr1)"
  then have "instrumented_execute orig this cb tr =
      (caller_gets r,
       tr1\<lparr>calls := calls tr1 @ map (Pair (next_span tr)) (execute_calls r)\<rparr>)"
    by (rule execute_outcome)
  with status_in_execute_calls [of r]
  show "\<exists>own. instrumented_execute orig this cb tr =
                (caller_gets r, tr1\<lparr>calls := calls tr1 @ map (Pair (next_span tr)) own\<rparr>)
         \<and> ((\<exists>code message. SetStatus code message \<in> set own) \<longleftrightarrow>
              (\<exists>err message. r = Inl err \<and> String_js err = Inr message))"
    by blast
next
  assume "summarizeQuery q = Inr name \<and>
    origq thisq q i (started name (query_options q) tr) = (Inr resq, trq)"
  then show "instrumented_executeQuery origq thisq q i tr =
        (Inr resq,
         trq\<lparr>calls := calls trq @
                [(next_span tr, SetAttribute ''db.response.returned_rows''
                                  (JNum (of_nat (length (rows resq))))),
                 (next_span tr, End)]\<rparr>)"
    by (simp add: executeQuery_returns)
next
  assume "summarizeQuery q = Inr name \<and>
    origq thisq q i (started name (query_options q) tr) = (rq, trq)"
  then have s: "summarizeQuery q = Inr name"
    and o: "origq thisq q i (started name (query_options q) tr) = (rq, trq)"
    by simp_all
  from s o have "instrumented_executeQuery origq thisq q i tr =
      (caller_gets rq,
       trq\<lparr>calls := calls trq @ map (Pair (next_span tr)) (executeQuery_calls rq)\<rparr>)"
    by (rule executeQuery_outcome)
  with status_in_executeQuery_calls [of rq]
  show "\<exists>own. instrumented_executeQuery origq thisq q i tr =
                (caller_gets rq, trq\<lparr>calls := calls trq @ map (Pair (next_span tr)) own\<rparr>)
         \<and> ((\<exists>code message. SetStatus code message \<in> set own) \<longleftrightarrow>
              (\<exists>err message. rq = Inl err \<and> String_js err = Inr message))"
    by blast
qed

text \<open>
  An instance: a transaction and a select that return, and a transaction that throws.
\<close>

theorem status_set_only_on_failure_witness:
  "instrumented_execute
      (\<lambda>(this :: unit) (cb :: unit) t. (Inr ''committed'' :: js_value + string, t)) () () tracer0
    = (Inr ''committed'',
       \<lparr>next_span = 1,
        calls = [(0, Start ''TRANSACTION'' transaction_options), (0, End)]\<rparr>)
   \<and>
   instrumented_executeQuery
      (\<lambda>(this :: unit) q (i :: unit) t. (Inr \<lparr>rows = [''ann'', ''bob'', ''cy'']\<rparr>, t))
      () select_from_users () tracer0
    = (Inr \<lparr>rows = [''ann'', ''bob'', ''cy'']\<rparr>,
       \<lparr>next_span = 1,
        calls = [(0, Start ''SELECT FROM public.users'' (query_options select_from_users)),
                 (0, SetAttribute ''db.response.returned_rows'' (JNum 3)),
                 (0, End)]\<rparr>)
   \<and>
   (\<exists>own. instrumented_execute
             (\<lambda>(this :: unit) (cb :: unit) t. (Inl (JStr ''boom'') :: js_value + string, t)) () ()
             tracer0 =
           (Inl (JStr ''boom''),
            \<lparr>next_span = 1,
             calls = [(0, Start ''TRANSACTION'' transaction_options)] @ map (Pair 0) own\<rparr>)
         \<and> (\<exists>code message. SetStatus code message \<in> set own))"
proof -
  let ?orig = "\<lambda>(this :: unit) (cb :: unit) (t :: tracer).
                 (Inr ''committed'' :: js_value + string, t)"
  let ?orig' = "\<lambda>(this :: unit) (cb :: unit) (t :: tracer).
                  (Inl (JStr ''boom'') :: js_value + string, t)"
  let ?origq = "\<lambda>(this :: unit) (q :: compiled_query) (i :: unit) (t :: tracer).
                  (Inr \<lparr>rows = [''ann'', ''bob'', ''cy'']\<rparr> :: js_value + string query_result, t)"
  let ?t1 = "started ''TRANSACTION'' transaction_options tracer0"
  let ?tq = "started ''SELECT FROM public.users'' (query_options select_from_users) tracer0"
  have h1: "?orig () () ?t1 = (Inr ''committed'', ?t1)"
    by simp
  have h1': "?orig' () () ?t1 = (Inl (JStr ''boom''), ?t1)"
    by simp
  have h2: "summarizeQuery select_from_users = Inr ''SELECT FROM public.users'' \<and>
            ?origq () select_from_users () ?tq = (Inr \<lparr>rows = [''ann'', ''bob'', ''cy'']\<rparr>, ?tq)"
    by (simp add: summarize_defs)
  note a = status_set_only_on_failure
    [where orig = ?orig and this = "()" and cb = "()" and tr = tracer0
       and res = "''committed''" and ?tr1.0 = ?t1,
     THEN conjunct1, THEN mp, OF h1]
  note b = status_set_only_on_failure
    [where origq = ?origq and thisq = "()" and q = select_from_users and i = "()"
       and tr = tracer0 and name = "''SELECT FROM public.users''"
       and resq = "\<lparr>rows = [''ann'', ''bob'', ''cy'']\<rparr>" and trq = ?tq,
     THEN conjunct2, THEN conjunct2, THEN conjunct1, THEN mp, OF h2]
  note c = status_set_only_on_failure
    [where orig = ?orig' and this = "()" and cb = "()" and tr = tracer0
       and r = "Inl (JStr ''boom'')" and ?tr1.0 = ?t1,
     THEN conjunct2, THEN conjunct1, THEN mp, OF h1']
  have g: "caller_gets (Inl (JStr ''boom'') :: js_value + string) = Inl (JStr ''boom'')"
    by (simp add: caller_gets_def catch_throws_def)
  from c have c': "\<exists>own. instrumented_execute ?orig' () () tracer0 =
           (Inl (JStr ''boom''),
            \<lparr>next_span = 1,
             calls = [(0, Start ''TRANSACTION'' transaction_options)] @ map (Pair 0) own\<rparr>)
         \<and> (\<exists>code message. SetStatus code message \<in> set own)"
    by (simp add: g)
  from a b c' show ?thesis by simp
qed

section \<open>Installing twice\<close>

lemma setupInstrumentation_execute:
  "TransactionBuilder_execute (setupInstrumentation lib) =
     instrumented_execute (TransactionBuilder_execute lib)"
  by (simp add: setupInstrumentation_def)

lemma setupInstrumentation_executeQuery:
  "DefaultQueryExecutor_executeQuery (setupInstrumentation lib) =
     instrumented_executeQuery (DefaultQueryExecutor_executeQuery lib)"
  by (simp add: setupInstrumentation_def)

lemma execute_calls_not_empty: "0 < length (execute_calls r)"
  by (cases r) (simp_all add: execute_calls_def)

lemma execute_adds_calls:
  "length (calls (snd (orig this cb (started ''TRANSACTION'' transaction_options tr))))
     < length (calls (snd (instrumented_execute orig this cb tr)))"
proof -
  obtain r tr1 where o: "orig this cb (started ''TRANSACTION'' transaction_options tr) = (r, tr1)"
    by (cases "orig this cb (started ''TRANSACTION'' transaction_options tr)")
  then have "instrumented_execute orig this cb tr =
      (caller_gets r,
       tr1\<lparr>calls := calls tr1 @ map (Pair (next_span tr)) (execute_calls r)\<rparr>)"
    by (rule execute_outcome)
  with o execute_calls_not_empty [of r] show ?thesis by simp
qed

lemma execute_twice_differs:
  "instrumented_execute (instrumented_execute orig) \<noteq> instrumented_execute orig"
proof
  assume eq: "instrumented_execute (instrumented_execute orig) = instrumented_execute orig"
  define h where
    "h tr = length (calls (snd (instrumented_execute orig undefined undefined tr)))" for tr
  have less: "h (started ''TRANSACTION'' transaction_options tr) < h tr" for tr
    using execute_adds_calls [of "instrumented_execute orig" undefined undefined tr]
    by (simp add: h_def eq)
  have "h tr \<noteq> n" for n tr
  proof (induction n arbitrary: tr rule: less_induct)
    case (less n)
    show ?case
    proof
      assume "h tr = n"
      with \<open>h (started ''TRANSACTION'' transaction_options tr) < h tr\<close>
      have "h (started ''TRANSACTION'' transaction_options tr) < n" by simp
      from less.IH [OF this, of "started ''TRANSACTION'' transaction_options tr"]
      show False by simp
    qed
  qed
  then show False by blast
qed

text \<open>
  C8. The second call of \<^verbatim>\<open>setupInstrumentation\<close> wraps the wrappers the first call
  installed, and the result is never the same as after one call. When the original
  transaction execution returns without touching the tracer, a call through the
  library instrumented once starts and ends one span, and through the library
  instrumented twice it starts two spans and ends both, the inner one first. When the
  original query execution throws, both spans of the twice-instrumented call get the
  failure calls and are ended, the inner one first: the inner wrapper handles the
  value thrown, the outer one the value the inner catch block throws.
\<close>

theorem second_install_wraps_the_first:
  "TransactionBuilder_execute (setupInstrumentation (setupInstrumentation lib)) =
     instrumented_execute (instrumented_execute (TransactionBuilder_execute lib))
   \<and>
   DefaultQueryExecutor_executeQuery (setupInstrumentation (setupInstrumentation lib)) =
     instrumented_executeQuery (instrumented_executeQuery (DefaultQueryExecutor_executeQuery lib))
   \<and>
   setupInstrumentation (setupInstrumentation lib) \<noteq> setupInstrumentation lib
   \<and>
   (TransactionBuilder_execute lib this cb = (\<lambda>t. (Inr res, t)) \<longrightarrow>
      TransactionBuilder_execute (setupInstrumentation lib) this cb tr =
        (Inr res,
         tr\<lparr>next_span := next_span tr + 1,
            calls := calls tr @
              [(next_span tr, Start ''TRANSACTION'' transaction_options),
               (next_span tr, End)]\<rparr>)
      \<and>
      TransactionBuilder_execute (setupInstrumentation (setupInstrumentation lib)) this cb tr =
        (Inr res,
         tr\<lparr>next_span := next_span tr + 2,
            calls := calls tr @
              [(next_span tr, Start ''TRANSACTION'' transaction_options),
               (next_span tr + 1, Start ''TRANSACTION'' transaction_options),
               (next_span tr + 1, End),
               (next_span tr, End)]\<rparr>))
   \<and>
   (summarizeQuery q = Inr name \<and>
    DefaultQueryExecutor_executeQuery lib thisq q i = (\<lambda>t. (Inl err, t)) \<longrightarrow>
      DefaultQueryExecutor_executeQuery (setupInstrumentation (setupInstrumentation lib))
          thisq q i tr =
        (Inl (catch_throws (catch_throws err)),
         tr\<lparr>next_span := next_span tr + 2,
            calls := calls tr @
              [(next_span tr, Start name (query_options q)),
               (next_span tr + 1, Start name (query_options q))]
              @ map (Pair (next_span tr + 1)) (failure_calls err @ [End])
              @ map (Pair (next_span tr)) (failure_calls (catch_throws err) @ [End])\<rparr>))"
proof (intro conjI impI)
  show "TransactionBuilder_execute (setupInstrumentation (setupInstrumentation lib)) =
     instrumented_execute (instrumented_execute (TransactionBuilder_execute lib))"
    by (simp add: setupInstrumentation_execute)
  show "DefaultQueryExecutor_executeQuery (setupInstrumentation (setupInstrumentation lib)) =
     instrumented_executeQuery (instrumented_executeQuery (DefaultQueryExecutor_executeQuery lib))"
    by (simp add: setupInstrumentation_executeQuery)
  show "setupInstrumentation (setupInstrumentation lib) \<noteq> setupInstrumentation lib"
  proof
    assume "setupInstrumentation (setupInstrumentation lib) = setupInstrumentation lib"
    then have "TransactionBuilder_execute (setupInstrumentation (setupInstrumentation lib)) =
        TransactionBuilder_execute (setupInstrumentation lib)"
      by simp
    then show False
      by (simp add: setupInstrumentation_execute execute_twice_differs)
  qed
next
  assume o: "TransactionBuilder_execute lib this cb = (\<lambda>t. (Inr res, t))"
  let ?n = "next_span tr"
  let ?t1 = "started ''TRANSACTION'' transaction_options tr"
  let ?t2 = "started ''TRANSACTION'' transaction_options ?t1"
  from o have o1: "TransactionBuilder_execute lib this cb ?t1 = (Inr res, ?t1)"
    and o2: "TransactionBuilder_execute lib this cb ?t2 = (Inr res, ?t2)"
    by simp_all
  from o1 have one: "instrumented_execute (TransactionBuilder_execute lib) this cb tr =
      (Inr res, ?t1\<lparr>calls := calls ?t1 @ [(next_span tr, End)]\<rparr>)"
    by (rule execute_returns)
  from o2 have inner: "instrumented_execute (TransactionBuilder_execute lib) this cb ?t1 =
      (Inr res, ?t2\<lparr>calls := calls ?t2 @ [(next_span ?t1, End)]\<rparr>)"
    by (rule execute_returns)
  from inner have two:
    "instrumented_execute (instrumented_execute (TransactionBuilder_execute lib)) this cb tr =
      (Inr res, (?t2\<lparr>calls := calls ?t2 @ [(next_span ?t1, End)]\<rparr>)
                 \<lparr>calls := calls (?t2\<lparr>calls := calls ?t2 @ [(next_span ?t1, End)]\<rparr>)
                            @ [(next_span tr, End)]\<rparr>)"
    by (rule execute_returns)
  from one show "TransactionBuilder_execute (setupInstrumentation lib) this cb tr =
        (Inr res,
         tr\<lparr>next_span := next_span tr + 1,
            calls := calls tr @
              [(next_span tr, Start ''TRANSACTION'' transaction_options),
               (next_span tr, End)]\<rparr>)"
    by (simp add: setupInstrumentation_execute)
  from two
  show "TransactionBuilder_execute (setupInstrumentation (setupInstrumentation lib)) this cb tr =
        (Inr res,
         tr\<lparr>next_span := next_span tr + 2,
            calls := calls tr @
              [(next_span tr, Start ''TRANSACTION'' transaction_options),
               (next_span tr + 1, Start ''TRANSACTION'' transaction_options),
               (next_span tr + 1, End),
               (next_span tr, End)]\<rparr>)"
    by (simp add: setupInstrumentation_execute)
next
  assume a: "summarizeQuery q = Inr name \<and>
    DefaultQueryExecutor_executeQuery lib thisq q i = (\<lambda>t. (Inl err, t))"
  then have s: "summarizeQuery q = Inr name"
    and o: "DefaultQueryExecutor_executeQuery lib thisq q i = (\<lambda>t. (Inl err, t))"
    by simp_all
  let ?t1 = "started name (query_options q) tr"
  let ?t2 = "started name (query_options q) ?t1"
  let ?t3 = "?t2\<lparr>calls := calls ?t2 @ map (Pair (next_span ?t1)) (failure_calls err @ [End])\<rparr>"
  from o have o2: "DefaultQueryExecutor_executeQuery lib thisq q i ?t2 = (Inl err, ?t2)"
    by simp
  from s o2
  have inner: "instrumented_executeQuery (DefaultQueryExecutor_executeQuery lib) thisq q i ?t1 =
      (Inl (catch_throws err), ?t3)"
    by (rule executeQuery_throws)
  from s inner have two:
    "instrumented_executeQuery (instrumented_executeQuery (DefaultQueryExecutor_executeQuery lib))
        thisq q i tr =
      (Inl (catch_throws (catch_throws err)),
       ?t3\<lparr>calls := calls ?t3
               @ map (Pair (next_span tr)) (failure_calls (catch_throws err) @ [End])\<rparr>)"
    by (rule executeQuery_throws)
  from two
  show "DefaultQueryExecutor_executeQuery (setupInstrumentation (setupInstrumentation lib))
          thisq q i tr =
        (Inl (catch_throws (catch_throws err)),
         tr\<lparr>next_span := next_span tr + 2,
            calls := calls tr @
              [(next_span tr, Start name (query_options q)),
               (next_span tr + 1, Start name (query_options q))]
              @ map (Pair (next_span tr + 1)) (failure_calls err @ [End])
              @ map (Pair (next_span tr)) (failure_calls (catch_throws err) @ [End])\<rparr>)"
    by (simp add: setupInstrumentation_executeQuery)
qed

text \<open>
  An instance: a library whose transactions commit and whose queries throw the string
  \<open>boom\<close>, instrumented twice.
\<close>

theorem second_install_wraps_the_first_witness:
  "TransactionBuilder_execute
      (setupInstrumentation (setupInstrumentation
         \<lparr>TransactionBuilder_execute =
            (\<lambda>(this :: unit) (cb :: unit) t. (Inr ''committed'' :: js_value + string, t)),
          DefaultQueryExecutor_executeQuery =
            (\<lambda>(this :: unit) q (i :: unit) t.
                (Inl (JStr ''boom'') :: js_value + string query_result, t))\<rparr>))
      () () tracer0
    = (Inr ''committed'',
       \<lparr>next_span = 2,
        calls = [(0, Start ''TRANSACTION'' transaction_options),
                 (1, Start ''TRANSACTION'' transaction_options),
                 (1, End),
                 (0, End)]\<rparr>)
   \<and>
   DefaultQueryExecutor_executeQuery
      (setupInstrumentation (setupInstrumentation
         \<lparr>TransactionBuilder_execute =
            (\<lambda>(this :: unit) (cb :: unit) t. (Inr ''committed'' :: js_value + string, t)),
          DefaultQueryExecutor_executeQuery =
            (\<lambda>(this :: unit) q (i :: unit) t.
                (Inl (JStr ''boom'') :: js_value + string query_result, t))\<rparr>))
      () select_from_users () tracer0
    = (Inl (JStr ''boom''),
       \<lparr>next_span = 2,
        calls = [(0, Start ''SELECT FROM public.users'' (query_options select_from_users)),
                 (1, Start ''SELECT FROM public.users'' (query_options select_from_users)),
                 (1, SetStatus ERROR ''boom''),
                 (1, End),
                 (0, SetStatus ERROR ''boom''),
                 (0, End)]\<rparr>)"
proof -
  let ?lib = "\<lparr>TransactionBuilder_execute =
                 (\<lambda>(this :: unit) (cb :: unit) (t :: tracer).
                     (Inr ''committed'' :: js_value + string, t)),
               DefaultQueryExecutor_executeQuery =
                 (\<lambda>(this :: unit) (q :: compiled_query) (i :: unit) (t :: tracer).
                     (Inl (JStr ''boom'') :: js_value + string query_result, t))\<rparr>"
  have h1: "TransactionBuilder_execute ?lib () () = (\<lambda>t. (Inr ''committed'', t))"
    by simp
  have h2: "summarizeQuery select_from_users = Inr ''SELECT FROM public.users'' \<and>
            DefaultQueryExecutor_executeQuery ?lib () select_from_users ()
              = (\<lambda>t. (Inl (JStr ''boom''), t))"
    by (simp add: summarize_defs)
  have f: "failure_calls (JStr ''boom'') = [SetStatus ERROR ''boom'']"
      "catch_throws (JStr ''boom'') = JStr ''boom''"
    by (simp_all add: failure_calls_def catch_throws_def has_string_code_def)
  note inst = second_install_wraps_the_first
    [where lib = ?lib and this = "()" and cb = "()" and tr = tracer0 and res = "''committed''"
       and thisq = "()" and q = select_from_users and i = "()"
       and name = "''SELECT FROM public.users''" and err = "JStr ''boom''"]
  note a = inst [THEN conjunct2, THEN conjunct2, THEN conjunct2, THEN conjunct1, THEN mp,
                 OF h1, THEN conjunct2]
  note b = inst [THEN conjunct2, THEN conjunct2, THEN conjunct2, THEN conjunct2, THEN mp, OF h2]
  from a b f show ?thesis by simp
qed

end
